theory Spec2Isabelle
  imports Complex_Main "HOL-Library.Sublist" "HOL-Library.Log_Nat" "HOL-Library.Multiset"
begin

section \<open>Strings\<close>

text \<open>
  The skill names and the resume text of \<^verbatim>\<open>script.js\<close> are JavaScript strings. They are
  modelled as \<^typ>\<open>string\<close>, one \<^typ>\<open>char\<close> per code unit. \<^verbatim>\<open>toLowerCase\<close> maps the
  letters A to Z to a to z and leaves every other code unit alone, as JavaScript does on
  ASCII text; the vocabulary of the script is ASCII. Cased letters outside ASCII, which
  JavaScript folds too, are outside this model.
\<close>

definition lowerChar :: "char \<Rightarrow> char" where
  "lowerChar c =
     (let n = (of_char c :: nat) in if 65 \<le> n \<and> n \<le> 90 then char_of (n + 32) else c)"

definition toLowerCase :: "string \<Rightarrow> string" where
  "toLowerCase s = map lowerChar s"

text \<open>
  \<^verbatim>\<open>s.includes(t)\<close>: \<^verbatim>\<open>t\<close> occurs in \<^verbatim>\<open>s\<close> at some position, as a run of consecutive
  code units. The empty string occurs in every string.
\<close>

fun includes_str :: "string \<Rightarrow> string \<Rightarrow> bool" where
  "includes_str [] t = (t = [])"
| "includes_str (c # s) t = (prefix t (c # s) \<or> includes_str s t)"

section \<open>The skill test\<close>

text \<open>
  The arrow function that \<^verbatim>\<open>calculateMatchScore\<close> (twice), \<^verbatim>\<open>getMatchedSkills\<close> and
  \<^verbatim>\<open>getMissingSkills\<close> each pass to \<^verbatim>\<open>resumeSkills.some\<close>, the same text in all four places:
  \<^verbatim>\<open>
  resumeSkill.toLowerCase().includes(skill.toLowerCase()) ||
  skill.toLowerCase().includes(resumeSkill.toLowerCase())
  \<close>
\<close>

definition skillTest :: "string \<Rightarrow> string \<Rightarrow> bool" where
  "skillTest skill resumeSkill \<longleftrightarrow>
     includes_str (toLowerCase resumeSkill) (toLowerCase skill) \<or>
     includes_str (toLowerCase skill) (toLowerCase resumeSkill)"

text \<open>\<^verbatim>\<open>resumeSkills.some(resumeSkill => ...)\<close> for one skill of a job.\<close>

definition someMatch :: "string list \<Rightarrow> string \<Rightarrow> bool" where
  "someMatch resumeSkills skill = list_ex (skillTest skill) resumeSkills"

section \<open>Jobs and match results\<close>

text \<open>
  A job of \<^verbatim>\<open>data/job_descriptions.json\<close>. The two skill lists and the source URL may be
  absent from the object (\<^verbatim>\<open>undefined\<close> when read), which is \<^const>\<open>None\<close>.
\<close>

record job =
  title :: string
  company :: string
  location :: string
  description :: string
  requirements :: "string list option"
  nice_to_have :: "string list option"
  source_url :: "string option"

text \<open>
  The object that \<^verbatim>\<open>analyzeResume\<close> pushes: \<^verbatim>\<open>{...job, matchScore, matchedSkills,
  missingSkills}\<close>, the job's own fields and three more.
\<close>

record matchResult = job +
  matchScore :: int
  matchedSkills :: "string list"
  missingSkills :: "string list"

datatype error = TypeError

text \<open>\<^verbatim>\<open>x || []\<close> for a field that holds an array or is absent.\<close>

definition orEmpty :: "string list option \<Rightarrow> string list" where
  "orEmpty x = (case x of None \<Rightarrow> [] | Some xs \<Rightarrow> xs)"

section \<open>Numbers\<close>

text \<open>
  JavaScript numbers are IEEE 754 binary64 values. A finite one is a rational, and each
  arithmetic operation returns the exact result rounded to the nearest binary64 value, ties
  to the even significand. \<open>fl\<close> is that rounding: 53 significant bits, the unit in the last
  place never below \<open>2 powi - 1074\<close>. The scorer divides a count by a larger, nonzero count
  and multiplies by 80 and 20, so nothing it computes is large enough to overflow.
\<close>

definition flog2 :: "rat \<Rightarrow> int" where
  "flog2 x =
     (let (a, b) = quotient_of x; d = bitlen a - bitlen b
      in if 2 powi d \<le> x then d else d - 1)"

definition roundEven :: "rat \<Rightarrow> int" where
  "roundEven y =
     (let f = \<lfloor>y\<rfloor>; d = y - of_int f
      in if d < 1 / 2 then f else if 1 / 2 < d then f + 1 else if even f then f else f + 1)"

definition fl :: "rat \<Rightarrow> rat" where
  "fl x =
     (if x = 0 then 0
      else let q = max (flog2 \<bar>x\<bar> - 52) (- 1074)
           in sgn x * of_int (roundEven (\<bar>x\<bar> / 2 powi q)) * 2 powi q)"

definition ddiv :: "rat \<Rightarrow> rat \<Rightarrow> rat" where
  "ddiv x y = fl (x / y)"

definition dmul :: "rat \<Rightarrow> rat \<Rightarrow> rat" where
  "dmul x y = fl (x * y)"

definition dadd :: "rat \<Rightarrow> rat \<Rightarrow> rat" where
  "dadd x y = fl (x + y)"

text \<open>\<^verbatim>\<open>Math.round\<close>: the nearest integer, a tie going up.\<close>

definition Math_round :: "rat \<Rightarrow> int" where
  "Math_round x = \<lfloor>x + 1 / 2\<rfloor>"

section \<open>The scorer\<close>

definition calculateMatchScore :: "string list \<Rightarrow> 'a job_scheme \<Rightarrow> int" where
  "calculateMatchScore resumeSkills job =
     (let requiredSkills = orEmpty (requirements job);
          niceToHaveSkills = orEmpty (nice_to_have job)
      in if length requiredSkills = 0 then 0
         else
           let requiredMatches = length (filter (someMatch resumeSkills) requiredSkills);
               niceToHaveMatches = length (filter (someMatch resumeSkills) niceToHaveSkills);
               requiredScore =
                 dmul (ddiv (of_nat requiredMatches) (of_nat (length requiredSkills))) 80;
               niceToHaveScore =
                 dmul (ddiv (of_nat niceToHaveMatches)
                            (of_nat (max (length niceToHaveSkills) 1))) 20
           in Math_round (dadd requiredScore niceToHaveScore))"

text \<open>
  \<^verbatim>\<open>getMatchedSkills\<close> and \<^verbatim>\<open>getMissingSkills\<close> call \<^verbatim>\<open>jobRequirements.filter\<close> on their
  argument as it comes; on \<^verbatim>\<open>undefined\<close> that call throws a TypeError.
\<close>

definition getMatchedSkills :: "string list \<Rightarrow> string list option \<Rightarrow> error + string list" where
  "getMatchedSkills resumeSkills jobRequirements =
     (case jobRequirements of
        None \<Rightarrow> Inl TypeError
      | Some reqs \<Rightarrow> Inr (filter (someMatch resumeSkills) reqs))"

definition getMissingSkills :: "string list \<Rightarrow> string list option \<Rightarrow> error + string list" where
  "getMissingSkills resumeSkills jobRequirements =
     (case jobRequirements of
        None \<Rightarrow> Inl TypeError
      | Some reqs \<Rightarrow> Inr (filter (\<lambda>skill. \<not> someMatch resumeSkills skill) reqs))"

section \<open>Extraction\<close>

definition commonSkills :: "string list" where
  "commonSkills =
     [''Python'', ''JavaScript'', ''Java'', ''C++'', ''C#'', ''PHP'', ''Ruby'', ''Go'', ''Rust'',
      ''React'', ''Angular'', ''Vue'', ''Node.js'', ''Express'', ''Django'', ''Flask'', ''FastAPI'',
      ''SQL'', ''PostgreSQL'', ''MySQL'', ''MongoDB'', ''Redis'', ''Docker'', ''Kubernetes'',
      ''AWS'', ''Azure'', ''GCP'', ''Git'', ''GitHub'', ''CI/CD'', ''Jenkins'', ''Travis'',
      ''Machine Learning'', ''AI'', ''TensorFlow'', ''PyTorch'', ''Scikit-learn'',
      ''Data Science'', ''Pandas'', ''NumPy'', ''Matplotlib'', ''Seaborn'',
      ''HTML'', ''CSS'', ''SASS'', ''Bootstrap'', ''Tailwind'', ''TypeScript'',
      ''REST API'', ''GraphQL'', ''Microservices'', ''Agile'', ''Scrum'']"

definition extractSkills :: "string \<Rightarrow> string list" where
  "extractSkills resumeContent =
     (let resumeLower = toLowerCase resumeContent
      in filter (\<lambda>skill. includes_str resumeLower (toLowerCase skill)) commonSkills)"

section \<open>The matching run\<close>

text \<open>
  The body of \<^verbatim>\<open>jobData.forEach\<close>: the score, the two skill lists, and the pushed object.
  An exception thrown by one of the calls leaves the loop and \<^verbatim>\<open>analyzeResume\<close>.
\<close>

definition matchJob :: "string list \<Rightarrow> job \<Rightarrow> error + matchResult" where
  "matchJob resumeSkills job =
     (let score = calculateMatchScore resumeSkills job
      in case getMatchedSkills resumeSkills (requirements job) of
           Inl e \<Rightarrow> Inl e
         | Inr matched \<Rightarrow>
             (case getMissingSkills resumeSkills (requirements job) of
                Inl e \<Rightarrow> Inl e
              | Inr missing \<Rightarrow>
                  Inr (job.extend job (matchResult.fields score matched missing))))"

fun forEachJob :: "string list \<Rightarrow> job list \<Rightarrow> matchResult list \<Rightarrow> error + matchResult list" where
  "forEachJob resumeSkills [] matches = Inr matches"
| "forEachJob resumeSkills (job # jobData) matches =
     (case matchJob resumeSkills job of
        Inl e \<Rightarrow> Inl e
      | Inr m \<Rightarrow> forEachJob resumeSkills jobData (matches @ [m]))"

text \<open>
  \<^verbatim>\<open>Array.prototype.sort\<close> with a comparison function: the specification of the language
  requires a stable sort. \<open>arraySort\<close> is the stable insertion sort: an element goes before
  the first element that the comparison function does not put before it.
\<close>

fun insertSorted :: "('a \<Rightarrow> 'a \<Rightarrow> int) \<Rightarrow> 'a \<Rightarrow> 'a list \<Rightarrow> 'a list" where
  "insertSorted cmp x [] = [x]"
| "insertSorted cmp x (y # ys) =
     (if cmp x y \<le> 0 then x # y # ys else y # insertSorted cmp x ys)"

definition arraySort :: "('a \<Rightarrow> 'a \<Rightarrow> int) \<Rightarrow> 'a list \<Rightarrow> 'a list" where
  "arraySort cmp xs = foldr (insertSorted cmp) xs []"

text \<open>\<^verbatim>\<open>(a, b) => b.matchScore - a.matchScore\<close>\<close>

definition byScore :: "matchResult \<Rightarrow> matchResult \<Rightarrow> int" where
  "byScore a b = matchScore b - matchScore a"

text \<open>
  \<^verbatim>\<open>analyzeResume\<close> after its first line, for a given list of resume skills and the job
  data (a global of the script, here an argument).
\<close>

definition rankJobs :: "string list \<Rightarrow> job list \<Rightarrow> error + matchResult list" where
  "rankJobs resumeSkills jobData =
     (case forEachJob resumeSkills jobData [] of
        Inl e \<Rightarrow> Inl e
      | Inr matches \<Rightarrow> Inr (arraySort byScore matches))"

definition analyzeResume :: "string \<Rightarrow> job list \<Rightarrow> error + matchResult list" where
  "analyzeResume resumeContent jobData = rankJobs (extractSkills resumeContent) jobData"

section \<open>Notions used to state the properties\<close>

text \<open>
  The match result of one job whose \<^verbatim>\<open>requirements\<close> field is present: what the loop body
  pushes when none of its calls throws.
\<close>

definition resultOf :: "string list \<Rightarrow> job \<Rightarrow> matchResult" where
  "resultOf resumeSkills job =
     job.extend job
       (matchResult.fields
          (calculateMatchScore resumeSkills job)
          (filter (someMatch resumeSkills) (orEmpty (requirements job)))
          (filter (\<lambda>skill. \<not> someMatch resumeSkills skill) (orEmpty (requirements job))))"

text \<open>
  The equivalence of two skill names in the words of the design document: either is a
  substring of the other once both are in lower case.
\<close>

definition containsEither :: "string \<Rightarrow> string \<Rightarrow> bool" where
  "containsEither a b \<longleftrightarrow>
     sublist (toLowerCase a) (toLowerCase b) \<or> sublist (toLowerCase b) (toLowerCase a)"

text \<open>
  The number of skills of a list that are equivalent to some resume skill, and the total
  score in the words of the design document, from the four counts:
  \<^verbatim>\<open>round((countMatchedRequired / countRequired) * 80 +
  (countMatchedNice / max(countNice, 1)) * 20)\<close>, the value of the formula taken exactly and
  then rounded to the nearest integer.
\<close>

definition countMatched :: "string list \<Rightarrow> string list \<Rightarrow> nat" where
  "countMatched resumeSkills skills =
     length (filter (\<lambda>skill. \<exists>r\<in>set resumeSkills. containsEither skill r) skills)"

definition exactValue :: "nat \<Rightarrow> nat \<Rightarrow> nat \<Rightarrow> nat \<Rightarrow> rat" where
  "exactValue countMatchedRequired countRequired countMatchedNice countNice =
     of_nat countMatchedRequired / of_nat countRequired * 80 +
     of_nat countMatchedNice / of_nat (max countNice 1) * 20"

definition exactScore :: "nat \<Rightarrow> nat \<Rightarrow> nat \<Rightarrow> nat \<Rightarrow> int" where
  "exactScore countMatchedRequired countRequired countMatchedNice countNice =
     Math_round (exactValue countMatchedRequired countRequired countMatchedNice countNice)"

text \<open>
  The last three lines of \<^verbatim>\<open>calculateMatchScore\<close> as a function of the four counts: the same
  formula with each of its five operations rounded to binary64, as the program computes it.
\<close>

definition binary64Score :: "nat \<Rightarrow> nat \<Rightarrow> nat \<Rightarrow> nat \<Rightarrow> int" where
  "binary64Score countMatchedRequired countRequired countMatchedNice countNice =
     Math_round
       (dadd (dmul (ddiv (of_nat countMatchedRequired) (of_nat countRequired)) 80)
             (dmul (ddiv (of_nat countMatchedNice) (of_nat (max countNice 1))) 20))"

subsection \<open>Example jobs\<close>

definition posting :: "string \<Rightarrow> string list option \<Rightarrow> string list option \<Rightarrow> job" where
  "posting t reqs nice =
     \<lparr>title = t, company = ''Acme'', location = ''Remote'', description = ''Engineer'',
      requirements = reqs, nice_to_have = nice, source_url = None\<rparr>"

definition jobBackend :: job where
  "jobBackend = posting ''Backend'' (Some [''Python'', ''React'', ''AWS'']) (Some [])"

definition jobOps :: job where
  "jobOps = posting ''Ops'' (Some []) (Some [''Docker''])"

definition jobData1 :: job where
  "jobData1 = posting ''Data'' (Some [''Python'']) (Some [''Docker''])"

definition jobNoReqs :: job where
  "jobNoReqs = posting ''Draft'' None (Some [''Docker''])"

definition jobNoNice :: job where
  "jobNoNice = posting ''Intern'' (Some [''Python'']) None"

text \<open>Three required skills and 24 nice-to-have skills; Python is one of each.\<close>

definition jobTie :: job where
  "jobTie =
     posting ''Tie'' (Some [''Python'', ''Go'', ''Rust''])
       (Some [''Python'', ''JavaScript'', ''Java'', ''C++'', ''C#'', ''PHP'', ''Ruby'', ''Go'',
              ''Rust'', ''React'', ''Angular'', ''Vue'', ''Node.js'', ''Express'', ''Django'',
              ''Flask'', ''FastAPI'', ''SQL'', ''PostgreSQL'', ''MySQL'', ''MongoDB'', ''Redis'',
              ''Docker'', ''Kubernetes''])"

definition jobA :: job where
  "jobA = posting ''A'' (Some [''Python'', ''Rust'']) (Some [''Python''])"

definition jobB :: job where
  "jobB = posting ''B'' (Some [''Go'', ''Python'']) (Some [''Python''])"

definition jobC :: job where
  "jobC = posting ''C'' (Some [''Python'']) (Some [])"

section \<open>Strings and the skill test\<close>

lemma includes_str_sublist: "includes_str s t \<longleftrightarrow> sublist t s"
  by (induction s) (simp_all add: sublist_Cons_right)

lemma skillTest_containsEither: "skillTest a b \<longleftrightarrow> containsEither a b"
  by (auto simp: skillTest_def containsEither_def includes_str_sublist)

lemma someMatch_iff: "someMatch rs skill \<longleftrightarrow> (\<exists>r\<in>set rs. containsEither skill r)"
  by (simp add: someMatch_def list_ex_iff skillTest_containsEither)

section \<open>Rounding to binary64\<close>

text \<open>
  \<open>flog2 x\<close> is the exponent of the power of two at or below a positive \<open>x\<close>. The
  rounding keeps a nonnegative number nonnegative and below every integer of at most 53
  bits that bounds it, and moves a number bounded by \<open>b\<close> by at most \<open>b / 2 ^ 53\<close>.
\<close>

lemma flog2_le:
  assumes "0 < x"
  shows "2 powi (flog2 x) \<le> x"
proof -
  obtain a b where q: "quotient_of x = (a, b)" by (cases "quotient_of x")
  have b: "0 < b" using q by (rule quotient_of_denom_pos)
  have x: "x = of_int a / of_int b" using q by (rule quotient_of_div)
  have a: "0 < a" using assms b x by (simp add: zero_less_divide_iff)
  define d where "d = bitlen a - bitlen b"
  show ?thesis
  proof (cases "2 powi d \<le> x")
    case True
    then show ?thesis by (simp add: flog2_def q d_def)
  next
    case False
    have la: "(2::int) ^ nat (bitlen a - 1) \<le> a" using bitlen_bounds [OF a] by simp
    have ub: "b < 2 ^ nat (bitlen b)" using bitlen_bounds [OF b] by simp
    have a1: "1 \<le> bitlen a" using a bitlen_eq_zero_iff [of a] bitlen_nonneg [of a] by linarith
    have la': "(2::rat) powi (bitlen a - 1) \<le> of_int a"
    proof -
      have "(of_int ((2::int) ^ nat (bitlen a - 1)) :: rat) \<le> of_int a"
        using la by (simp only: of_int_le_iff)
      then show ?thesis using a1 by (simp add: power_int_def)
    qed
    have ub': "of_int b \<le> (2::rat) powi (bitlen b)"
    proof -
      have "(of_int b :: rat) \<le> of_int ((2::int) ^ nat (bitlen b))"
        using ub by (simp only: of_int_le_iff)
      then show ?thesis using bitlen_nonneg [of b] by (simp add: power_int_def)
    qed
    have "(2::rat) powi (d - 1) = 2 powi (bitlen a - 1) / 2 powi (bitlen b)"
      by (simp add: d_def power_int_diff)
    also have "\<dots> \<le> of_int a / 2 powi (bitlen b)"
      using la' by (simp add: divide_right_mono)
    also have "\<dots> \<le> of_int a / of_int b"
      using ub' a b by (simp add: frac_le)
    finally have "2 powi (d - 1) \<le> x" using x by simp
    with False show ?thesis by (simp add: flog2_def q d_def)
  qed
qed

lemma flog2_less:
  assumes "0 < x"
  shows "x < 2 powi (flog2 x + 1)"
proof -
  obtain a b where q: "quotient_of x = (a, b)" by (cases "quotient_of x")
  have b: "0 < b" using q by (rule quotient_of_denom_pos)
  have x: "x = of_int a / of_int b" using q by (rule quotient_of_div)
  have a: "0 < a" using assms b x by (simp add: zero_less_divide_iff)
  define d where "d = bitlen a - bitlen b"
  show ?thesis
  proof (cases "2 powi d \<le> x")
    case True
    have ua: "a < 2 ^ nat (bitlen a)" using bitlen_bounds [OF a] by simp
    have lb: "(2::int) ^ nat (bitlen b - 1) \<le> b" using bitlen_bounds [OF b] by simp
    have b1: "1 \<le> bitlen b" using b bitlen_eq_zero_iff [of b] bitlen_nonneg [of b] by linarith
    have ua': "of_int a < (2::rat) powi (bitlen a)"
    proof -
      have "(of_int a :: rat) < of_int ((2::int) ^ nat (bitlen a))"
        using ua by (simp only: of_int_less_iff)
      then show ?thesis using bitlen_nonneg [of a] by (simp add: power_int_def)
    qed
    have lb': "(2::rat) powi (bitlen b - 1) \<le> of_int b"
    proof -
      have "(of_int ((2::int) ^ nat (bitlen b - 1)) :: rat) \<le> of_int b"
        using lb by (simp only: of_int_le_iff)
      then show ?thesis using b1 by (simp add: power_int_def)
    qed
    have p: "(0::rat) < 2 powi (bitlen b - 1)" by (simp add: zero_less_power_int)
    have "of_int a / of_int b \<le> of_int a / (2::rat) powi (bitlen b - 1)"
      using lb' a p by (simp add: frac_le)
    also have "\<dots> < 2 powi (bitlen a) / 2 powi (bitlen b - 1)"
      using ua' p by (simp add: divide_strict_right_mono)
    also have "\<dots> = 2 powi (bitlen a - (bitlen b - 1))"
      by (rule power_int_diff [symmetric]) simp
    also have "bitlen a - (bitlen b - 1) = d + 1" by (simp add: d_def)
    finally have "x < 2 powi (d + 1)" using x by simp
    with True show ?thesis by (simp add: flog2_def q d_def)
  next
    case False
    then show ?thesis by (simp add: flog2_def q d_def)
  qed
qed

lemma roundEven_nonneg: "0 \<le> y \<Longrightarrow> 0 \<le> roundEven y"
  by (auto simp: roundEven_def Let_def)

lemma roundEven_le:
  assumes "y \<le> of_int N"
  shows "roundEven y \<le> N"
proof (cases "\<lfloor>y\<rfloor> = N")
  case True
  then have "of_int N \<le> y" by (metis of_int_floor_le)
  with assms have "y = of_int N" by simp
  then show ?thesis by (simp add: roundEven_def)
next
  case False
  moreover have "\<lfloor>y\<rfloor> \<le> N" using assms by (simp add: floor_le_iff) 
  ultimately have "\<lfloor>y\<rfloor> + 1 \<le> N" by simp
  then show ?thesis by (auto simp: roundEven_def Let_def)
qed

lemma fl_nonneg: "0 \<le> x \<Longrightarrow> 0 \<le> fl x"
  by (auto simp: fl_def Let_def sgn_if intro!: mult_nonneg_nonneg roundEven_nonneg)

lemma fl_le_int:
  assumes "0 \<le> x" and "x \<le> of_int N" and "N < 2 ^ 53"
  shows "fl x \<le> of_int N"
proof (cases "x = 0")
  case True
  then show ?thesis using assms by (simp add: fl_def)
next
  case False
  then have x: "0 < x" using assms by simp
  define q where "q = max (flog2 x - 52) (- 1074)"
  have "(2::rat) powi (flog2 x) \<le> x" using x by (rule flog2_le)
  also have "x < 2 powi 53"
  proof -
    have "(of_int N :: rat) < of_int (2 ^ 53)" using assms(3) by (simp only: of_int_less_iff)
    then show ?thesis using assms(2) by simp
  qed
  finally have "(2::rat) powi (flog2 x) < 2 powi 53" .
  then have "flog2 x < 53" by (rule power_int_le_imp_less_exp [rotated]) simp_all
  then have q0: "q \<le> 0" by (simp add: q_def)
  have p: "(0::rat) < 2 powi q" by (simp add: zero_less_power_int)
  define M where "M = N * 2 ^ nat (- q)"
  have M: "(of_int M :: rat) = of_int N / 2 powi q"
    using q0 by (simp add: M_def power_int_def power_inverse field_simps)
  have "x / 2 powi q \<le> of_int M" using assms(2) p by (simp add: M divide_right_mono)
  then have "roundEven (x / 2 powi q) \<le> M" by (rule roundEven_le)
  then have "(of_int (roundEven (x / 2 powi q)) :: rat) \<le> of_int M" by (simp only: of_int_le_iff)
  then have "of_int (roundEven (x / 2 powi q)) * (2::rat) powi q \<le> of_int M * 2 powi q"
    using p by (simp add: mult_right_mono)
  also have "\<dots> = of_int N" using p by (simp add: M)
  finally show ?thesis using x by (simp add: fl_def Let_def q_def)
qed

lemma fl_zero: "fl 0 = 0"
  by (simp add: fl_def)

lemma roundEven_error: "\<bar>of_int (roundEven y) - y\<bar> \<le> 1 / 2"
proof -
  have "of_int \<lfloor>y\<rfloor> \<le> y" "y < of_int \<lfloor>y\<rfloor> + 1" by linarith+
  then show ?thesis by (auto simp: roundEven_def Let_def abs_le_iff)
qed

lemma fl_error:
  assumes "0 \<le> x" and "x \<le> b" and "1 / 2 ^ 1022 \<le> b"
  shows "\<bar>fl x - x\<bar> \<le> b / 2 ^ 53"
proof (cases "x = 0")
  case True
  then show ?thesis using assms by (simp add: fl_def)
next
  case False
  then have x: "0 < x" using assms by simp
  define q where "q = max (flog2 x - 52) (- 1074)"
  define u :: rat where "u = 2 powi q"
  have u0: "0 < u" by (simp add: u_def zero_less_power_int)
  have "u \<le> b / 2 ^ 52"
  proof (cases "flog2 x - 52 \<le> - 1074")
    case True
    then have "u = 2 powi (- 1074)" by (simp add: u_def q_def max_def)
    also have "\<dots> = (1 / 2 ^ 1022) / 2 ^ 52" by (simp add: power_int_def power_inverse field_simps)
    also have "\<dots> \<le> b / 2 ^ 52" using assms(3) by (simp only: divide_right_mono zero_le_numeral zero_le_power)
    finally show ?thesis .
  next
    case False
    then have "u = 2 powi (flog2 x - 52)" by (simp add: u_def q_def max_def)
    also have "\<dots> = 2 powi (flog2 x) / 2 ^ 52" by (simp add: power_int_diff)
    also have "\<dots> \<le> x / 2 ^ 52" using flog2_le [OF x] by (simp add: divide_right_mono)
    also have "\<dots> \<le> b / 2 ^ 52" using assms(2) by (simp add: divide_right_mono)
    finally show ?thesis .
  qed
  then have ub: "u / 2 \<le> b / 2 ^ 53" by simp
  have flx: "fl x = of_int (roundEven (x / u)) * u"
    using x by (simp add: fl_def Let_def q_def u_def)
  have "fl x - x = (of_int (roundEven (x / u)) - x / u) * u"
    using u0 by (simp add: flx left_diff_distrib)
  then have "\<bar>fl x - x\<bar> = \<bar>of_int (roundEven (x / u)) - x / u\<bar> * u"
    using u0 by (simp add: abs_mult)
  also have "\<dots> \<le> (1 / 2) * u"
    using roundEven_error [of "x / u"] u0 by (simp only: mult_right_mono less_imp_le)
  finally show ?thesis using ub by simp
qed

lemma Math_round_error: "\<bar>of_int (Math_round x) - x\<bar> \<le> 1 / 2"
proof -
  have "of_int \<lfloor>x + 1 / 2\<rfloor> \<le> x + 1 / 2" "x + 1 / 2 < of_int \<lfloor>x + 1 / 2\<rfloor> + 1" by linarith+
  then show ?thesis unfolding Math_round_def by linarith
qed

lemma Math_round_range:
  assumes "0 \<le> t" and "t \<le> 100"
  shows "0 \<le> Math_round t \<and> Math_round t \<le> 100"
proof -
  have "0 \<le> \<lfloor>t + 1 / 2\<rfloor>" using assms(1) by simp
  moreover have "\<lfloor>t + 1 / 2\<rfloor> < 101" using assms(2) by (simp add: floor_less_iff)
  ultimately show ?thesis by (simp add: Math_round_def)
qed

lemma Math_round_zero: "Math_round 0 = 0"
  by (simp add: Math_round_def floor_eq_iff)

section \<open>The score\<close>

lemma ddiv_count:
  assumes "m \<le> n" and "0 < n"
  shows "0 \<le> ddiv (of_nat m) (of_nat n) \<and> ddiv (of_nat m) (of_nat n) \<le> 1 \<and>
         \<bar>ddiv (of_nat m) (of_nat n) - of_nat m / of_nat n\<bar> \<le> 1 / 2 ^ 53"
proof -
  have x0: "(0::rat) \<le> of_nat m / of_nat n" by simp
  have x1: "(of_nat m :: rat) / of_nat n \<le> 1" using assms by (simp add: divide_le_eq)
  have "fl (of_nat m / of_nat n) \<le> of_int 1"
    using x0 x1 by (intro fl_le_int) simp_all
  moreover have "\<bar>fl (of_nat m / of_nat n) - of_nat m / of_nat n\<bar> \<le> 1 / 2 ^ 53"
    using x0 x1 by (rule fl_error) simp
  ultimately show ?thesis using fl_nonneg [OF x0] by (simp add: ddiv_def)
qed

lemma dmul_weight:
  assumes "0 \<le> r" and "r \<le> 1" and "0 < k" and "k \<le> 100"
  shows "0 \<le> dmul r (of_int k) \<and> dmul r (of_int k) \<le> of_int k \<and>
         \<bar>dmul r (of_int k) - r * of_int k\<bar> \<le> of_int k / 2 ^ 53"
proof -
  have k: "(0::rat) < of_int k" "(1::rat) \<le> of_int k" using assms(3) by simp_all
  have x0: "0 \<le> r * of_int k" using assms(1) k by simp
  have x1: "r * of_int k \<le> of_int k" using assms(2) k by (simp add: mult_le_cancel_right1)
  have "fl (r * of_int k) \<le> of_int k"
    using x0 x1 assms(4) by (intro fl_le_int) simp_all
  moreover have "\<bar>fl (r * of_int k) - r * of_int k\<bar> \<le> of_int k / 2 ^ 53"
  proof (rule fl_error [OF x0 x1])
    have "(1::rat) / 2 ^ 1022 \<le> 1" by simp
    then show "(1::rat) / 2 ^ 1022 \<le> of_int k" using k(2) by (rule order_trans)
  qed
  ultimately show ?thesis using fl_nonneg [OF x0] by (simp add: dmul_def)
qed

lemma binary64Score_near_exact:
  assumes "m \<le> n" and "0 < n" and "p \<le> q"
  shows "\<bar>of_int (binary64Score m n p q) -
          (of_nat m / of_nat n * 80 + of_nat p / of_nat (max q 1) * 20 :: rat)\<bar> \<le> 1 / 2 + 300 / 2 ^ 53"
proof -
  define x1 :: rat where "x1 = of_nat m / of_nat n"
  define x2 :: rat where "x2 = of_nat p / of_nat (max q 1)"
  define r where "r = ddiv (of_nat m) (of_nat n)"
  define s where "s = ddiv (of_nat p) (of_nat (max q 1))"
  define a where "a = dmul r 80"
  define b where "b = dmul s 20"
  define t where "t = dadd a b"
  have r: "0 \<le> r" "r \<le> 1" "\<bar>r - x1\<bar> \<le> 1 / 2 ^ 53"
    using ddiv_count [OF assms(1,2)] by (simp_all add: r_def x1_def)
  have "p \<le> max q 1" "0 < max q 1" using assms(3) by simp_all
  then have s: "0 \<le> s" "s \<le> 1" "\<bar>s - x2\<bar> \<le> 1 / 2 ^ 53"
    using ddiv_count [of p "max q 1"] by (simp_all add: s_def x2_def)
  have a: "0 \<le> a" "a \<le> 80" "\<bar>a - r * 80\<bar> \<le> 80 / 2 ^ 53"
    using dmul_weight [OF r(1,2), of 80] by (simp_all add: a_def)
  have b: "0 \<le> b" "b \<le> 20" "\<bar>b - s * 20\<bar> \<le> 20 / 2 ^ 53"
    using dmul_weight [OF s(1,2), of 20] by (simp_all add: b_def)
  have "\<bar>fl (a + b) - (a + b)\<bar> \<le> 100 / 2 ^ 53"
    by (rule fl_error) (use a b in simp_all)
  then have t: "\<bar>t - (a + b)\<bar> \<le> 100 / 2 ^ 53" by (simp add: t_def dadd_def)
  have m: "\<bar>of_int (Math_round t) - t\<bar> \<le> 1 / 2" by (rule Math_round_error)
  have "\<bar>of_int (Math_round t) - (x1 * 80 + x2 * 20)\<bar> \<le> 1 / 2 + 300 / 2 ^ 53"
    using r(3) s(3) a(3) b(3) t m by (simp only: abs_le_iff) linarith
  then show ?thesis
    by (simp only: binary64Score_def t_def a_def b_def r_def s_def x1_def x2_def)
qed

lemma binary64Score_nearest:
  assumes "m \<le> n" and "0 < n" and "p \<le> q" and "n * max q 1 \<le> 2 ^ 43"
  shows "\<bar>of_int (binary64Score m n p q) -
          (of_nat m / of_nat n * 80 + of_nat p / of_nat (max q 1) * 20 :: rat)\<bar> \<le> 1 / 2"
proof -
  define d :: int where "d = int n * int (max q 1)"
  define N :: int where "N = 80 * int m * int (max q 1) + 20 * int p * int n"
  define k where "k = binary64Score m n p q"
  define e :: int where "e = 2 * d * k - 2 * N"
  have d0: "0 < d" using assms(2) by (simp add: d_def)
  have "int (n * max q 1) \<le> int (2 ^ 43)" using assms(4) by (simp only: of_nat_le_iff)
  then have d1: "d \<le> 2 ^ 43" by (simp add: d_def)
  have D0: "(0::rat) < of_int d" using d0 by simp
  have x: "(of_nat m / of_nat n * 80 + of_nat p / of_nat (max q 1) * 20 :: rat) = of_int N / of_int d"
    using assms(2) by (simp add: N_def d_def field_simps)
  have diff: "of_int k - of_int N / of_int d = (of_int e :: rat) / (2 * of_int d)"
    using D0 by (simp add: e_def field_simps)
  have near: "\<bar>(of_int e :: rat) / (2 * of_int d)\<bar> \<le> 1 / 2 + 300 / 2 ^ 53"
    using binary64Score_near_exact [OF assms(1-3)] by (simp only: x k_def [symmetric] diff)
  have "\<bar>of_int e :: rat\<bar> \<le> (1 / 2 + 300 / 2 ^ 53) * (2 * of_int d)"
    using near D0 by (simp add: abs_divide pos_divide_le_eq del: of_int_abs)
  also have "\<dots> = of_int d + 600 * of_int d / 2 ^ 53" by (simp add: field_simps)
  also have "\<dots> < of_int d + 1"
  proof -
    have "(of_int d :: rat) \<le> of_int (2 ^ 43)" using d1 by (simp only: of_int_le_iff)
    then have "600 * (of_int d :: rat) / 2 ^ 53 \<le> 600 * 2 ^ 43 / 2 ^ 53" by simp
    also have "\<dots> < 1" by simp
    finally show ?thesis by simp
  qed
  finally have "(of_int \<bar>e\<bar> :: rat) < of_int (d + 1)" by simp
  then have "\<bar>e\<bar> < d + 1" by (simp only: of_int_less_iff)
  then have "\<bar>e\<bar> \<le> d" by simp
  then have "(of_int \<bar>e\<bar> :: rat) \<le> of_int d" by (simp only: of_int_le_iff)
  then have "\<bar>(of_int e :: rat) / (2 * of_int d)\<bar> \<le> 1 / 2"
    using D0 by (simp add: abs_divide pos_divide_le_eq)
  then show ?thesis by (simp only: x k_def [symmetric] diff)
qed

lemma binary64Score_range:
  assumes "m \<le> n" and "0 < n" and "p \<le> q"
  shows "0 \<le> binary64Score m n p q \<and> binary64Score m n p q \<le> 100"
proof -
  define r where "r = ddiv (of_nat m) (of_nat n)"
  define s where "s = ddiv (of_nat p) (of_nat (max q 1))"
  have r: "0 \<le> r" "r \<le> 1"
    using ddiv_count [OF assms(1,2)] by (simp_all add: r_def)
  have "p \<le> max q 1" "0 < max q 1" using assms(3) by simp_all
  then have s: "0 \<le> s" "s \<le> 1"
    using ddiv_count [of p "max q 1"] by (simp_all add: s_def)
  have a: "0 \<le> dmul r 80" "dmul r 80 \<le> 80"
    using dmul_weight [OF r, of 80] by simp_all
  have b: "0 \<le> dmul s 20" "dmul s 20 \<le> 20"
    using dmul_weight [OF s, of 20] by simp_all
  have t0: "0 \<le> dadd (dmul r 80) (dmul s 20)" unfolding dadd_def
    by (rule fl_nonneg) (use a b in simp)
  have t1: "dadd (dmul r 80) (dmul s 20) \<le> 100" unfolding dadd_def
    using fl_le_int [of "dmul r 80 + dmul s 20" 100] a b by simp
  show ?thesis unfolding binary64Score_def r_def [symmetric] s_def [symmetric]
    using t0 t1 by (rule Math_round_range)
qed

lemma calculateMatchScore_weighted:
  "orEmpty (requirements job) \<noteq> [] \<Longrightarrow>
   calculateMatchScore rs job =
     binary64Score (length (filter (someMatch rs) (orEmpty (requirements job))))
                   (length (orEmpty (requirements job)))
                   (length (filter (someMatch rs) (orEmpty (nice_to_have job))))
                   (length (orEmpty (nice_to_have job)))"
  by (simp add: calculateMatchScore_def binary64Score_def Let_def)

lemma calculateMatchScore_range:
  "0 \<le> calculateMatchScore rs job \<and> calculateMatchScore rs job \<le> 100"
proof (cases "orEmpty (requirements job) = []")
  case True
  then show ?thesis by (simp add: calculateMatchScore_def)
next
  case False
  then have "calculateMatchScore rs job =
     binary64Score (length (filter (someMatch rs) (orEmpty (requirements job))))
                   (length (orEmpty (requirements job)))
                   (length (filter (someMatch rs) (orEmpty (nice_to_have job))))
                   (length (orEmpty (nice_to_have job)))"
    by (rule calculateMatchScore_weighted)
  moreover have "0 < length (orEmpty (requirements job))" using False by simp
  ultimately show ?thesis
    using binary64Score_range
      [of "length (filter (someMatch rs) (orEmpty (requirements job)))"
          "length (orEmpty (requirements job))"
          "length (filter (someMatch rs) (orEmpty (nice_to_have job)))"
          "length (orEmpty (nice_to_have job))"]
    by simp
qed

text \<open>
  Against the exact value of the formula: the score is an integer nearest to it, and it is
  the exact value rounded by \<^verbatim>\<open>Math.round\<close> unless that value lies halfway between two
  integers, as long as the product of the two list lengths is at most \<open>2 ^ 43\<close>.
\<close>

lemma countMatched_someMatch: "countMatched rs skills = length (filter (someMatch rs) skills)"
proof -
  have "someMatch rs = (\<lambda>skill. \<exists>r\<in>set rs. containsEither skill r)"
    by (intro ext) (rule someMatch_iff)
  then show ?thesis by (simp add: countMatched_def)
qed

lemma countMatched_le: "countMatched rs skills \<le> length skills"
  by (simp add: countMatched_someMatch)

lemma calculateMatchScore_counts:
  assumes "requirements job = Some reqs" and "reqs \<noteq> []"
  shows "calculateMatchScore rs job =
     binary64Score (countMatched rs reqs) (length reqs)
       (countMatched rs (orEmpty (nice_to_have job))) (length (orEmpty (nice_to_have job)))"
proof -
  have reqs: "orEmpty (requirements job) = reqs" using assms(1) by (simp add: orEmpty_def)
  then have "orEmpty (requirements job) \<noteq> []" using assms(2) by simp
  then show ?thesis
    using calculateMatchScore_weighted [of job rs] by (simp add: reqs countMatched_someMatch)
qed

lemma Math_round_eqI:
  assumes "\<bar>of_int k - x\<bar> \<le> 1 / 2" and "of_int (Math_round x) \<noteq> x + 1 / 2"
  shows "k = Math_round x"
proof -
  have lo: "of_int k \<le> x + 1 / 2" using assms(1) by linarith
  have hi: "x + 1 / 2 \<le> of_int k + 1" using assms(1) by linarith
  have "x + 1 / 2 \<noteq> of_int (k + 1)"
  proof
    assume eq: "x + 1 / 2 = of_int (k + 1)"
    then have "\<lfloor>x + 1 / 2\<rfloor> = k + 1" by (simp only: floor_of_int)
    then have "of_int (Math_round x) = x + 1 / 2" by (simp add: Math_round_def eq)
    with assms(2) show False by simp
  qed
  then have "x + 1 / 2 < of_int k + 1" using hi by simp
  then have "\<lfloor>x + 1 / 2\<rfloor> = k" using lo by (simp add: floor_unique)
  then show ?thesis by (simp add: Math_round_def)
qed

lemma binary64Score_nearest_exactValue:
  assumes "m \<le> n" and "0 < n" and "p \<le> q" and "n * max q 1 \<le> 2 ^ 43"
  shows "\<bar>of_int (binary64Score m n p q) - exactValue m n p q\<bar> \<le> 1 / 2"
  using binary64Score_nearest [OF assms] by (simp only: exactValue_def)

lemma binary64Score_exactScore:
  assumes "m \<le> n" and "0 < n" and "p \<le> q" and "n * max q 1 \<le> 2 ^ 43"
    and "of_int (exactScore m n p q) \<noteq> exactValue m n p q + 1 / 2"
  shows "binary64Score m n p q = exactScore m n p q"
proof -
  have near: "\<bar>of_int (binary64Score m n p q) - exactValue m n p q\<bar> \<le> 1 / 2"
    using assms(1-4) by (rule binary64Score_nearest_exactValue)
  have notie: "of_int (Math_round (exactValue m n p q)) \<noteq> exactValue m n p q + 1 / 2"
    using assms(5) unfolding exactScore_def .
  from near notie show ?thesis unfolding exactScore_def by (rule Math_round_eqI)
qed

text \<open>
  Where the exact value is halfway between two integers, the sum computed in binary64 can
  fall below it. One matched skill of 3 required and one of 24 nice-to-have have the exact
  value 27.5, which \<^verbatim>\<open>Math.round\<close> would take to 28; the program computes a sum just below
  27.5 and returns 27.
\<close>

lemma tie_score: "calculateMatchScore [''Python''] jobTie = 27"
  by code_simp

lemma tie_exact: "exactValue 1 3 1 24 = 55 / 2 \<and> exactScore 1 3 1 24 = 28"
  by code_simp

lemma tie_counts:
  "countMatched [''Python''] [''Python'', ''Go'', ''Rust''] = 1 \<and>
   countMatched [''Python'']
     [''Python'', ''JavaScript'', ''Java'', ''C++'', ''C#'', ''PHP'', ''Ruby'', ''Go'',
      ''Rust'', ''React'', ''Angular'', ''Vue'', ''Node.js'', ''Express'', ''Django'',
      ''Flask'', ''FastAPI'', ''SQL'', ''PostgreSQL'', ''MySQL'', ''MongoDB'', ''Redis'',
      ''Docker'', ''Kubernetes''] = 1"
  unfolding countMatched_someMatch by code_simp

section \<open>The loop over the jobs and the sort\<close>

lemma matchJob_Some: "requirements j = Some reqs \<Longrightarrow> matchJob rs j = Inr (resultOf rs j)"
  by (simp add: matchJob_def getMatchedSkills_def getMissingSkills_def resultOf_def orEmpty_def)

lemma matchJob_None: "requirements j = None \<Longrightarrow> matchJob rs j = Inl TypeError"
  by (simp add: matchJob_def getMatchedSkills_def)

lemma forEachJob_present:
  "\<forall>j\<in>set jobs. requirements j \<noteq> None \<Longrightarrow>
   forEachJob rs jobs acc = Inr (acc @ map (resultOf rs) jobs)"
  by (induction jobs arbitrary: acc) (auto simp: matchJob_Some)

lemma forEachJob_absent:
  "\<exists>j\<in>set jobs. requirements j = None \<Longrightarrow> forEachJob rs jobs acc = Inl TypeError"
proof (induction jobs arbitrary: acc)
  case Nil
  then show ?case by simp
next
  case (Cons j jobs)
  show ?case
  proof (cases "requirements j")
    case None
    then show ?thesis by (simp add: matchJob_None)
  next
    case (Some reqs)
    with Cons.prems have "\<exists>j\<in>set jobs. requirements j = None" by auto
    then show ?thesis using Some Cons.IH by (simp add: matchJob_Some)
  qed
qed

lemma insertSorted_byScore:
  "insertSorted byScore x ys = insort_key (\<lambda>m. - matchScore m) x ys"
  by (induction ys) (simp_all add: byScore_def)

lemma arraySort_byScore: "arraySort byScore xs = sort_key (\<lambda>m. - matchScore m) xs"
proof -
  have "insertSorted byScore = insort_key (\<lambda>m. - matchScore m)"
    by (intro ext) (rule insertSorted_byScore)
  then show ?thesis by (simp add: arraySort_def sort_key_def)
qed

lemma rankJobs_present:
  "\<forall>j\<in>set jobs. requirements j \<noteq> None \<Longrightarrow>
   rankJobs rs jobs = Inr (sort_key (\<lambda>m. - matchScore m) (map (resultOf rs) jobs))"
  by (simp add: rankJobs_def forEachJob_present arraySort_byScore)

lemma rankJobs_absent:
  "\<exists>j\<in>set jobs. requirements j = None \<Longrightarrow> rankJobs rs jobs = Inl TypeError"
  by (simp add: rankJobs_def forEachJob_absent)

lemma rankJobs_Inr:
  assumes "rankJobs rs jobs = Inr out"
  shows "(\<forall>j\<in>set jobs. requirements j \<noteq> None) \<and>
         out = sort_key (\<lambda>m. - matchScore m) (map (resultOf rs) jobs)"
proof (cases "\<exists>j\<in>set jobs. requirements j = None")
  case True
  then show ?thesis using assms by (simp add: rankJobs_absent)
next
  case False
  then have "\<forall>j\<in>set jobs. requirements j \<noteq> None" by simp
  then show ?thesis using assms by (simp add: rankJobs_present)
qed

lemma truncate_resultOf: "job.truncate (resultOf rs j) = j"
  by (simp add: resultOf_def job.truncate_def job.extend_def)

lemma matchScore_resultOf: "matchScore (resultOf rs j) = calculateMatchScore rs j"
  by (simp add: resultOf_def job.extend_def matchResult.fields_def)

lemma sorted_rank: "sorted_wrt (\<lambda>a b. matchScore b \<le> matchScore a) (sort_key (\<lambda>m. - matchScore m) xs)"
proof -
  have "sorted (map (\<lambda>m. - matchScore m) (sort_key (\<lambda>m. - matchScore m) xs))"
    by (rule sorted_sort_key)
  then show ?thesis by (simp add: sorted_map)
qed

lemma stable_rank:
  "filter (\<lambda>m. matchScore m = s) (sort_key (\<lambda>m. - matchScore m) xs) =
   filter (\<lambda>m. matchScore m = s) xs"
  using sort_key_stable [of "\<lambda>m. - matchScore m" "- s" xs] by simp

lemma filter_resultOf:
  "map job.truncate (filter (\<lambda>m. matchScore m = s) (map (resultOf rs) jobs)) =
   filter (\<lambda>j. calculateMatchScore rs j = s) jobs"
  by (induction jobs) (simp_all add: truncate_resultOf matchScore_resultOf)

lemma fields_resultOf:
  "matchedSkills (resultOf rs j) = filter (someMatch rs) (orEmpty (requirements j))"
  "missingSkills (resultOf rs j) = filter (\<lambda>skill. \<not> someMatch rs skill) (orEmpty (requirements j))"
  "requirements (resultOf rs j) = requirements j"
  by (simp_all add: resultOf_def job.extend_def matchResult.fields_def)

section \<open>No resume skills\<close>

lemma someMatch_Nil: "someMatch [] skill = False"
  by (simp add: someMatch_def)

lemma calculateMatchScore_Nil: "calculateMatchScore [] job = 0"
  by (simp add: calculateMatchScore_def Let_def someMatch_Nil ddiv_def dmul_def dadd_def
      fl_zero Math_round_zero)

lemma resultOf_Nil:
  "resultOf [] j = job.extend j (matchResult.fields 0 [] (orEmpty (requirements j)))"
  by (simp add: resultOf_def calculateMatchScore_Nil someMatch_Nil)

lemma sort_key_constant:
  assumes "\<forall>x\<in>set xs. f x = k"
  shows "sort_key f xs = xs"
proof -
  have "filter (\<lambda>y. f y = k) (sort_key f xs) = filter (\<lambda>y. f y = k) xs"
    by (rule sort_key_stable)
  moreover have "filter (\<lambda>y. f y = k) (sort_key f xs) = sort_key f xs"
    using assms by (simp add: filter_id_conv)
  moreover have "filter (\<lambda>y. f y = k) xs = xs"
    using assms by (simp add: filter_id_conv)
  ultimately show ?thesis by simp
qed

lemma extractSkills_empty: "extractSkills [] = []"
  by (simp add: extractSkills_def toLowerCase_def commonSkills_def)

lemma rankJobs_Nil_skills:
  assumes "\<forall>j\<in>set jobs. requirements j \<noteq> None"
  shows "rankJobs [] jobs = Inr (map (resultOf []) jobs)"
proof -
  have "\<forall>m\<in>set (map (resultOf []) jobs). - matchScore m = 0"
    by (simp add: matchScore_resultOf calculateMatchScore_Nil)
  then have "sort_key (\<lambda>m. - matchScore m) (map (resultOf []) jobs) = map (resultOf []) jobs"
    by (rule sort_key_constant)
  then show ?thesis using assms by (simp add: rankJobs_present)
qed

section \<open>The scenario of the design document\<close>

lemma scenario_skills:
  "extractSkills ''I use Python and React daily'' = [''Python'', ''React'', ''AI'']"
  by code_simp

lemma scenario_matches:
  "map (someMatch [''Python'', ''React'', ''AI'']) [''Python'', ''React'', ''AWS''] = [True, True, False]"
  by code_simp

lemma scenario_formula: "binary64Score 2 3 0 0 = 53"
  by code_simp

lemma scenario_score: "calculateMatchScore [''Python'', ''React'', ''AI''] jobBackend = 53"
proof -
  have "orEmpty (requirements jobBackend) \<noteq> []"
    by (simp add: jobBackend_def posting_def orEmpty_def)
  moreover have "binary64Score (Suc (Suc 0)) (Suc (Suc (Suc 0))) 0 0 = 53"
    using scenario_formula by (simp only: numeral_2_eq_2 numeral_3_eq_3)
  ultimately show ?thesis
    using scenario_matches
    by (simp add: calculateMatchScore_weighted) (simp add: jobBackend_def posting_def orEmpty_def)
qed

lemma scenario_run:
  "analyzeResume ''I use Python and React daily'' [jobBackend] =
     Inr [job.extend jobBackend (matchResult.fields 53 [''Python'', ''React''] [''AWS''])]"
proof -
  have present: "\<forall>j\<in>set [jobBackend]. requirements j \<noteq> None"
    by (simp add: jobBackend_def posting_def)
  have "resultOf [''Python'', ''React'', ''AI''] jobBackend =
      job.extend jobBackend (matchResult.fields 53 [''Python'', ''React''] [''AWS''])"
    using scenario_matches
    by (simp add: resultOf_def scenario_score) (simp add: jobBackend_def posting_def orEmpty_def)
  then show ?thesis
    using present by (simp add: analyzeResume_def scenario_skills rankJobs_present)
qed

section \<open>Properties\<close>

text \<open>
  C1, as the code has it. For every job whose required skills are empty, or absent, the scorer
  returns 0 whatever the nice-to-have skills and the resume skills are: it returns before
  either component is computed.
\<close>

theorem no_requirements_scores_zero:
  "orEmpty (requirements job) = [] \<Longrightarrow> calculateMatchScore resumeSkills job = 0"
  by (simp add: calculateMatchScore_def)

theorem no_requirements_scores_zero_witness:
  "orEmpty (requirements jobOps) = [] \<and> calculateMatchScore [''Docker''] jobOps = 0"
proof -
  have h: "orEmpty (requirements jobOps) = []"
    by (simp add: jobOps_def posting_def orEmpty_def)
  show ?thesis using h no_requirements_scores_zero [OF h, of "[''Docker'']"] by simp
qed

text \<open>
  C1 as stated fails: with no required skill and the nice-to-have skill Docker, which the
  resume skill Docker matches, the score is not 20.
\<close>

theorem nice_to_have_only_counterexample:
  "someMatch [''Docker''] ''Docker'' \<and> calculateMatchScore [''Docker''] jobOps \<noteq> 20"
  by code_simp

text \<open>
  C2 at an input where the code departs from it. The job requires Python and would like
  Docker; the resume has the skill Docker. The nice-to-have skill matches and earns its 20
  points, and the list of matched skills of the result is empty: \<^verbatim>\<open>analyzeResume\<close> passes only
  \<^verbatim>\<open>job.requirements\<close> to \<^verbatim>\<open>getMatchedSkills\<close>.
\<close>

theorem matched_skills_leave_out_nice_to_have:
  "someMatch [''Docker''] ''Docker'' \<and>
   calculateMatchScore [''Docker''] jobData1 = 20 \<and>
   rankJobs [''Docker''] [jobData1] =
     Inr [job.extend jobData1 (matchResult.fields 20 [] [''Python''])]"
proof -
  have t: "someMatch [''Docker''] ''Docker'' = True" "someMatch [''Docker''] ''Python'' = False"
    by code_simp+
  have s: "calculateMatchScore [''Docker''] jobData1 = 20" by code_simp
  have present: "\<forall>j\<in>set [jobData1]. requirements j \<noteq> None"
    by (simp add: jobData1_def posting_def)
  have "resultOf [''Docker''] jobData1 =
      job.extend jobData1 (matchResult.fields 20 [] [''Python''])"
    by (simp add: resultOf_def s) (simp add: jobData1_def posting_def orEmpty_def t)
  then show ?thesis using t s present by (simp add: rankJobs_present)
qed

text \<open>
  C3 at an input where the code departs from it. For a job without the \<^verbatim>\<open>requirements\<close>
  field the scorer returns 0, the field read as an empty list, and \<^verbatim>\<open>getMatchedSkills\<close>
  throws; the run over job data that holds such a job returns no result at all. A job
  without the \<^verbatim>\<open>nice_to_have\<close> field is scored with that list empty.
\<close>

theorem absent_requirements_abort_the_run:
  "requirements jobNoReqs = None \<and>
   calculateMatchScore [''Python''] jobNoReqs = 0 \<and>
   getMatchedSkills [''Python''] (requirements jobNoReqs) = Inl TypeError \<and>
   rankJobs [''Python''] [jobC, jobNoReqs] = Inl TypeError \<and>
   analyzeResume ''Python'' [jobC, jobNoReqs] = Inl TypeError \<and>
   nice_to_have jobNoNice = None \<and>
   rankJobs [''Python''] [jobNoNice] =
     Inr [job.extend jobNoNice (matchResult.fields 80 [''Python''] [])]"
proof -
  have none: "requirements jobNoReqs = None" by (simp add: jobNoReqs_def posting_def)
  have absent: "\<exists>j\<in>set [jobC, jobNoReqs]. requirements j = None" using none by simp
  have t: "someMatch [''Python''] ''Python'' = True" by code_simp
  have s: "calculateMatchScore [''Python''] jobNoNice = 80" by code_simp
  have present: "\<forall>j\<in>set [jobNoNice]. requirements j \<noteq> None"
    by (simp add: jobNoNice_def posting_def)
  have "resultOf [''Python''] jobNoNice =
      job.extend jobNoNice (matchResult.fields 80 [''Python''] [])"
    by (simp add: resultOf_def s) (simp add: jobNoNice_def posting_def orEmpty_def t)
  then have ok: "rankJobs [''Python''] [jobNoNice] =
     Inr [job.extend jobNoNice (matchResult.fields 80 [''Python''] [])]"
    using present by (simp add: rankJobs_present)
  show ?thesis
    using none ok rankJobs_absent [OF absent]
    by (simp add: analyzeResume_def calculateMatchScore_def orEmpty_def getMatchedSkills_def)
      (simp add: jobNoNice_def posting_def)
qed

text \<open>
  C4. For every list of resume skills and every job data, the list that the matching run
  returns is sorted by score, highest first, and the jobs with one same score come in the
  order they have in the job data. The run returns whenever every job has its
  \<^verbatim>\<open>requirements\<close> field.
\<close>

theorem ranking_sorted_and_stable:
  "((\<forall>j\<in>set jobData. requirements j \<noteq> None) \<longrightarrow> (\<exists>out. rankJobs resumeSkills jobData = Inr out)) \<and>
   (rankJobs resumeSkills jobData = Inr out \<longrightarrow>
      sorted_wrt (\<lambda>a b. matchScore b \<le> matchScore a) out \<and>
      (\<forall>s. map job.truncate (filter (\<lambda>m. matchScore m = s) out) =
           filter (\<lambda>j. calculateMatchScore resumeSkills j = s) jobData))"
proof (intro conjI impI allI)
  assume "\<forall>j\<in>set jobData. requirements j \<noteq> None"
  then show "\<exists>out. rankJobs resumeSkills jobData = Inr out"
    by (simp add: rankJobs_present)
next
  assume "rankJobs resumeSkills jobData = Inr out"
  then have out: "out = sort_key (\<lambda>m. - matchScore m) (map (resultOf resumeSkills) jobData)"
    by (simp add: rankJobs_Inr)
  show "sorted_wrt (\<lambda>a b. matchScore b \<le> matchScore a) out"
    unfolding out by (rule sorted_rank)
  fix s
  show "map job.truncate (filter (\<lambda>m. matchScore m = s) out) =
        filter (\<lambda>j. calculateMatchScore resumeSkills j = s) jobData"
    unfolding out by (simp only: stable_rank filter_resultOf)
qed

theorem ranking_sorted_and_stable_witness:
  "requirements jobA \<noteq> None \<and> requirements jobB \<noteq> None \<and> requirements jobC \<noteq> None \<and>
   map matchScore (map (resultOf [''Python'']) [jobA, jobB, jobC]) = [60, 60, 80] \<and>
   rankJobs [''Python''] [jobA, jobB, jobC] =
     Inr [resultOf [''Python''] jobC,
          resultOf [''Python''] jobA,
          resultOf [''Python''] jobB] \<and>
   sorted_wrt (\<lambda>a b. matchScore b \<le> matchScore a)
     [resultOf [''Python''] jobC,
      resultOf [''Python''] jobA,
      resultOf [''Python''] jobB] \<and>
   map job.truncate
     (filter (\<lambda>m. matchScore m = 60)
        [resultOf [''Python''] jobC,
         resultOf [''Python''] jobA,
         resultOf [''Python''] jobB]) = [jobA, jobB]"
proof -
  let ?rs = "[''Python'']"
  have sA: "calculateMatchScore ?rs jobA = 60" by code_simp
  have sB: "calculateMatchScore ?rs jobB = 60" by code_simp
  have sC: "calculateMatchScore ?rs jobC = 80" by code_simp
  have pA: "requirements jobA \<noteq> None" by (simp add: jobA_def posting_def)
  have pB: "requirements jobB \<noteq> None" by (simp add: jobB_def posting_def)
  have pC: "requirements jobC \<noteq> None" by (simp add: jobC_def posting_def)
  have present: "\<forall>j\<in>set [jobA, jobB, jobC]. requirements j \<noteq> None"
    using pA pB pC by simp
  have run: "rankJobs ?rs [jobA, jobB, jobC] =
      Inr [resultOf ?rs jobC, resultOf ?rs jobA, resultOf ?rs jobB]"
    using present by (simp add: rankJobs_present matchScore_resultOf sA sB sC)
  note ok = ranking_sorted_and_stable
      [of "[jobA, jobB, jobC]" ?rs "[resultOf ?rs jobC, resultOf ?rs jobA, resultOf ?rs jobB]",
       THEN conjunct2, THEN mp, OF run]
  have stable: "map job.truncate
     (filter (\<lambda>m. matchScore m = 60) [resultOf ?rs jobC, resultOf ?rs jobA, resultOf ?rs jobB]) =
     [jobA, jobB]"
    using ok [THEN conjunct2, THEN spec, of 60] by (simp only: filter.simps sA sB sC) simp
  show ?thesis
    using pA pB pC run ok [THEN conjunct1] stable
    by (simp only: list.map matchScore_resultOf sA sB sC) simp
qed

text \<open>
  C5, as the code has it. For every job with at least one required skill the score is the
  weighted formula of the four counts with each operation rounded to binary64, as
  JavaScript computes it. As long as the product of the two list lengths is at most
  \<open>2 ^ 43\<close>, the score is an integer nearest to the exact value of the formula, and it equals
  the exact value rounded to the nearest integer whenever that value is not halfway between
  two integers. Two of three required skills matched and no nice-to-have skill give 53, and
  the run on the text \<^verbatim>\<open>I use Python and React daily\<close> against the job that requires
  Python, React and AWS returns the matched skills Python and React, the missing skill AWS
  and the score 53.
\<close>

theorem score_rounds_weighted_formula:
  "(requirements job = Some reqs \<and> reqs \<noteq> [] \<longrightarrow>
      calculateMatchScore resumeSkills job =
        binary64Score (countMatched resumeSkills reqs) (length reqs)
          (countMatched resumeSkills (orEmpty (nice_to_have job)))
          (length (orEmpty (nice_to_have job)))) \<and>
   (requirements job = Some reqs \<and> reqs \<noteq> [] \<and>
    length reqs * max (length (orEmpty (nice_to_have job))) 1 \<le> 2 ^ 43 \<longrightarrow>
      \<bar>of_int (calculateMatchScore resumeSkills job) -
         exactValue (countMatched resumeSkills reqs) (length reqs)
           (countMatched resumeSkills (orEmpty (nice_to_have job)))
           (length (orEmpty (nice_to_have job)))\<bar> \<le> 1 / 2 \<and>
      (of_int (exactScore (countMatched resumeSkills reqs) (length reqs)
                 (countMatched resumeSkills (orEmpty (nice_to_have job)))
                 (length (orEmpty (nice_to_have job)))) \<noteq>
       exactValue (countMatched resumeSkills reqs) (length reqs)
         (countMatched resumeSkills (orEmpty (nice_to_have job)))
         (length (orEmpty (nice_to_have job))) + 1 / 2 \<longrightarrow>
       calculateMatchScore resumeSkills job =
         exactScore (countMatched resumeSkills reqs) (length reqs)
           (countMatched resumeSkills (orEmpty (nice_to_have job)))
           (length (orEmpty (nice_to_have job))))) \<and>
   exactScore 2 3 0 0 = 53 \<and>
   analyzeResume ''I use Python and React daily'' [jobBackend] =
     Inr [job.extend jobBackend (matchResult.fields 53 [''Python'', ''React''] [''AWS''])]"
proof -
  define nice where "nice = orEmpty (nice_to_have job)"
  define m where "m = countMatched resumeSkills reqs"
  define p where "p = countMatched resumeSkills nice"
  have c1: "calculateMatchScore resumeSkills job = binary64Score m (length reqs) p (length nice)"
    if "requirements job = Some reqs \<and> reqs \<noteq> []"
    using that calculateMatchScore_counts [of job reqs resumeSkills]
    by (simp add: m_def p_def nice_def)
  have c2: "\<bar>of_int (calculateMatchScore resumeSkills job) -
              exactValue m (length reqs) p (length nice)\<bar> \<le> 1 / 2"
    if h: "requirements job = Some reqs \<and> reqs \<noteq> [] \<and>
           length reqs * max (length nice) 1 \<le> 2 ^ 43"
  proof -
    have "\<bar>of_int (binary64Score m (length reqs) p (length nice)) -
            exactValue m (length reqs) p (length nice)\<bar> \<le> 1 / 2"
      using h by (intro binary64Score_nearest_exactValue) (simp_all add: m_def p_def countMatched_le)
    then show ?thesis using c1 h by simp
  qed
  have c3: "calculateMatchScore resumeSkills job = exactScore m (length reqs) p (length nice)"
    if h: "requirements job = Some reqs \<and> reqs \<noteq> [] \<and>
           length reqs * max (length nice) 1 \<le> 2 ^ 43"
      and notie: "of_int (exactScore m (length reqs) p (length nice)) \<noteq>
                  exactValue m (length reqs) p (length nice) + 1 / 2"
  proof -
    have "binary64Score m (length reqs) p (length nice) = exactScore m (length reqs) p (length nice)"
      using h notie
      by (intro binary64Score_exactScore) (simp_all add: m_def p_def countMatched_le)
    then show ?thesis using c1 h by simp
  qed
  have c4: "exactScore 2 3 0 0 = 53" by code_simp
  show ?thesis
    unfolding nice_def [symmetric] m_def [symmetric] p_def [symmetric]
    using c1 c2 c3 c4 scenario_run by blast
qed

theorem score_rounds_weighted_formula_witness:
  "requirements jobBackend = Some [''Python'', ''React'', ''AWS''] \<and>
   [''Python'', ''React'', ''AWS''] \<noteq> ([] :: string list) \<and>
   length [''Python'', ''React'', ''AWS''] * max (length (orEmpty (nice_to_have jobBackend))) 1
     \<le> (2::nat) ^ 43 \<and>
   countMatched [''Python'', ''React'', ''AI''] [''Python'', ''React'', ''AWS''] = 2 \<and>
   countMatched [''Python'', ''React'', ''AI''] (orEmpty (nice_to_have jobBackend)) = 0 \<and>
   of_int (exactScore 2 3 0 0) \<noteq> exactValue 2 3 0 0 + 1 / 2 \<and>
   exactScore 2 3 0 0 = 53 \<and>
   calculateMatchScore [''Python'', ''React'', ''AI''] jobBackend = exactScore 2 3 0 0 \<and>
   \<bar>of_int (calculateMatchScore [''Python'', ''React'', ''AI''] jobBackend) -
      exactValue 2 3 0 0\<bar> \<le> 1 / 2"
proof -
  let ?rs = "[''Python'', ''React'', ''AI'']"
  let ?reqs = "[''Python'', ''React'', ''AWS'']"
  note inst = score_rounds_weighted_formula [of jobBackend ?reqs ?rs]
  have nice: "orEmpty (nice_to_have jobBackend) = []"
    by (simp add: jobBackend_def posting_def orEmpty_def)
  have reqs: "requirements jobBackend = Some ?reqs" "?reqs \<noteq> []"
    by (simp_all add: jobBackend_def posting_def)
  have small: "length ?reqs * max (length (orEmpty (nice_to_have jobBackend))) 1 \<le> (2::nat) ^ 43"
    by (simp add: nice)
  have cm: "countMatched ?rs ?reqs = 2"
    using scenario_matches by (simp add: countMatched_someMatch)
  have cn: "countMatched ?rs (orEmpty (nice_to_have jobBackend)) = 0"
    by (simp add: nice countMatched_def)
  have len: "length ?reqs = 3" "length (orEmpty (nice_to_have jobBackend)) = 0"
    by (simp_all add: nice)
  have notie: "of_int (exactScore 2 3 0 0) \<noteq> exactValue 2 3 0 0 + 1 / 2"
    by code_simp
  have h: "requirements jobBackend = Some ?reqs \<and> ?reqs \<noteq> [] \<and>
      length ?reqs * max (length (orEmpty (nice_to_have jobBackend))) 1 \<le> 2 ^ 43"
    using reqs small by simp
  note second = inst [THEN conjunct2, THEN conjunct1, THEN mp, OF h, unfolded cm cn len]
  note exact = second [THEN conjunct2, THEN mp, OF notie]
  note formula = inst [THEN conjunct2, THEN conjunct2, THEN conjunct1]
  show ?thesis
    using reqs small cm cn notie formula exact second [THEN conjunct1] by blast
qed

text \<open>
  C5 as stated fails: for the resume skill Python and a job with the required skills Python,
  Go and Rust and 24 nice-to-have skills of which Python is one, the formula has the exact
  value 27.5 and rounds to 28, and the scorer returns 27.
\<close>

theorem exact_rounding_tie_counterexample:
  "requirements jobTie = Some [''Python'', ''Go'', ''Rust''] \<and>
   countMatched [''Python''] (orEmpty (requirements jobTie)) = 1 \<and>
   length (orEmpty (requirements jobTie)) = 3 \<and>
   countMatched [''Python''] (orEmpty (nice_to_have jobTie)) = 1 \<and>
   length (orEmpty (nice_to_have jobTie)) = 24 \<and>
   exactValue 1 3 1 24 = 55 / 2 \<and>
   exactScore 1 3 1 24 = 28 \<and>
   calculateMatchScore [''Python''] jobTie = 27 \<and>
   calculateMatchScore [''Python''] jobTie \<noteq> exactScore 1 3 1 24"
proof -
  have "calculateMatchScore [''Python''] jobTie \<noteq> exactScore 1 3 1 24"
    using tie_score tie_exact by simp
  then show ?thesis
    using tie_score tie_exact tie_counts
    by (simp add: jobTie_def posting_def orEmpty_def)
qed

text \<open>
  C6. Two skill names pass the test exactly when the lower-case form of one is a substring
  of the lower-case form of the other, and the test is symmetric. So when the lower-case
  form of \<open>a\<close> is a substring of that of \<open>b\<close>, a resume skill \<open>a\<close> matches the job
  skill \<open>b\<close>, and a resume skill \<open>b\<close> matches the job skill \<open>a\<close>.
\<close>

theorem skill_test_is_symmetric_containment:
  "(skillTest a b \<longleftrightarrow>
      sublist (toLowerCase a) (toLowerCase b) \<or> sublist (toLowerCase b) (toLowerCase a)) \<and>
   (skillTest a b \<longleftrightarrow> skillTest b a) \<and>
   (sublist (toLowerCase a) (toLowerCase b) \<and> a \<in> set resumeSkills \<longrightarrow>
      someMatch resumeSkills b) \<and>
   (sublist (toLowerCase a) (toLowerCase b) \<and> b \<in> set resumeSkills \<longrightarrow>
      someMatch resumeSkills a) \<and>
   (sublist (toLowerCase a) (toLowerCase b) \<and> a \<in> set resumeSkills \<and> b \<in> set reqs \<longrightarrow>
      (\<exists>matched. getMatchedSkills resumeSkills (Some reqs) = Inr matched \<and> b \<in> set matched)) \<and>
   (sublist (toLowerCase a) (toLowerCase b) \<and> b \<in> set resumeSkills \<and> a \<in> set reqs \<longrightarrow>
      (\<exists>matched. getMatchedSkills resumeSkills (Some reqs) = Inr matched \<and> a \<in> set matched))"
proof -
  have iff: "skillTest x y \<longleftrightarrow>
      sublist (toLowerCase x) (toLowerCase y) \<or> sublist (toLowerCase y) (toLowerCase x)" for x y
    by (simp add: skillTest_containsEither containsEither_def)
  have sym: "skillTest x y \<longleftrightarrow> skillTest y x" for x y
    by (auto simp: iff)
  have ab: "someMatch resumeSkills b"
    if "sublist (toLowerCase a) (toLowerCase b)" "a \<in> set resumeSkills"
    using that by (auto simp: someMatch_def list_ex_iff iff)
  have ba: "someMatch resumeSkills a"
    if "sublist (toLowerCase a) (toLowerCase b)" "b \<in> set resumeSkills"
    using that by (auto simp: someMatch_def list_ex_iff iff)
  show ?thesis
    using iff [of a b] sym [of a b] ab ba by (auto simp: getMatchedSkills_def)
qed

theorem skill_test_is_symmetric_containment_witness:
  "sublist (toLowerCase ''Node'') (toLowerCase ''Node.js'') \<and>
   skillTest ''Node'' ''Node.js'' \<and> skillTest ''Node.js'' ''Node'' \<and>
   someMatch [''Node''] ''Node.js'' \<and> someMatch [''Node.js''] ''Node'' \<and>
   (\<exists>matched. getMatchedSkills [''Node''] (Some [''SQL'', ''Node.js'']) = Inr matched \<and>
              ''Node.js'' \<in> set matched) \<and>
   (\<exists>matched. getMatchedSkills [''Node.js''] (Some [''Node'', ''SQL'']) = Inr matched \<and>
              ''Node'' \<in> set matched)"
proof -
  have "includes_str (toLowerCase ''Node.js'') (toLowerCase ''Node'')" by code_simp
  then have sub: "sublist (toLowerCase ''Node'') (toLowerCase ''Node.js'')"
    by (simp only: includes_str_sublist)
  note t1 = skill_test_is_symmetric_containment
    [of "''Node''" "''Node.js''" "[''Node'']" "[''SQL'', ''Node.js'']"]
  note t2 = skill_test_is_symmetric_containment
    [of "''Node''" "''Node.js''" "[''Node.js'']" "[''Node'', ''SQL'']"]
  have m1: "''Node'' \<in> set [''Node'']" "''Node.js'' \<in> set [''SQL'', ''Node.js'']" by simp_all
  have m2: "''Node.js'' \<in> set [''Node.js'']" "''Node'' \<in> set [''Node'', ''SQL'']" by simp_all
  show ?thesis using sub t1 t2 m1 m2 by blast
qed

text \<open>
  C7. For every list of resume skills and every job, its skill lists present, empty or
  absent, the score that the scorer returns is an integer from 0 to 100, and so is the
  score of every match result.
\<close>

theorem score_between_0_and_100:
  "0 \<le> calculateMatchScore resumeSkills job \<and> calculateMatchScore resumeSkills job \<le> 100 \<and>
   (matchJob resumeSkills j = Inr m \<longrightarrow> 0 \<le> matchScore m \<and> matchScore m \<le> 100)"
proof (intro conjI impI)
  show "0 \<le> calculateMatchScore resumeSkills job"
    using calculateMatchScore_range [of resumeSkills job] by simp
  show "calculateMatchScore resumeSkills job \<le> 100"
    using calculateMatchScore_range [of resumeSkills job] by simp
next
  assume run: "matchJob resumeSkills j = Inr m"
  have m: "m = resultOf resumeSkills j"
  proof (cases "requirements j")
    case None
    then show ?thesis using run by (simp add: matchJob_None)
  next
    case (Some reqs)
    then show ?thesis using run by (simp add: matchJob_Some)
  qed
  show "0 \<le> matchScore m"
    using calculateMatchScore_range [of resumeSkills j] by (simp add: m matchScore_resultOf)
  show "matchScore m \<le> 100"
    using calculateMatchScore_range [of resumeSkills j] by (simp add: m matchScore_resultOf)
qed

theorem score_between_0_and_100_witness:
  "matchJob [''Python''] jobC = Inr (resultOf [''Python''] jobC) \<and>
   0 \<le> matchScore (resultOf [''Python''] jobC) \<and>
   matchScore (resultOf [''Python''] jobC) \<le> 100 \<and>
   0 \<le> calculateMatchScore [''Python''] jobNoReqs \<and>
   calculateMatchScore [''Python''] jobNoReqs \<le> 100"
proof -
  have run: "matchJob [''Python''] jobC = Inr (resultOf [''Python''] jobC)"
    by (rule matchJob_Some [of _ "[''Python'']"]) (simp add: jobC_def posting_def)
  note ok = score_between_0_and_100 [of "[''Python'']" jobNoReqs jobC "resultOf [''Python''] jobC"]
  show ?thesis using run ok by simp
qed

text \<open>
  C8. For the empty resume text \<^verbatim>\<open>extractSkills\<close> returns the empty list, and the matching
  run on that text and on job data in which every job has its \<^verbatim>\<open>requirements\<close> field returns
  one result per job, in the order of the job data, each with score 0, no matched skill, and
  the job's requirements as its missing skills.
\<close>

theorem empty_resume_scores_zero:
  "extractSkills '''' = [] \<and>
   ((\<forall>j\<in>set jobData. requirements j \<noteq> None) \<longrightarrow>
    (\<exists>out. analyzeResume '''' jobData = Inr out \<and>
           map job.truncate out = jobData \<and>
           (\<forall>m\<in>set out. matchScore m = 0 \<and> matchedSkills m = [] \<and>
                          requirements m = Some (missingSkills m))))"
proof (intro conjI impI)
  show "extractSkills '''' = []" by (rule extractSkills_empty)
next
  assume present: "\<forall>j\<in>set jobData. requirements j \<noteq> None"
  have run: "analyzeResume '''' jobData = Inr (map (resultOf []) jobData)"
    using present by (simp add: analyzeResume_def extractSkills_empty rankJobs_Nil_skills)
  have frame: "map job.truncate (map (resultOf []) jobData) = jobData"
    by (simp add: truncate_resultOf comp_def)
  have each: "\<forall>m\<in>set (map (resultOf []) jobData).
      matchScore m = 0 \<and> matchedSkills m = [] \<and> requirements m = Some (missingSkills m)"
    using present
    by (auto simp: matchScore_resultOf calculateMatchScore_Nil fields_resultOf someMatch_Nil
        orEmpty_def)
  show "\<exists>out. analyzeResume '''' jobData = Inr out \<and>
           map job.truncate out = jobData \<and>
           (\<forall>m\<in>set out. matchScore m = 0 \<and> matchedSkills m = [] \<and>
                          requirements m = Some (missingSkills m))"
    using run frame each by blast
qed

theorem empty_resume_scores_zero_witness:
  "requirements jobBackend \<noteq> None \<and> requirements jobOps \<noteq> None \<and>
   analyzeResume '''' [jobBackend, jobOps] =
     Inr [job.extend jobBackend (matchResult.fields 0 [] [''Python'', ''React'', ''AWS'']),
          job.extend jobOps (matchResult.fields 0 [] [])]"
proof -
  have present: "\<forall>j\<in>set [jobBackend, jobOps]. requirements j \<noteq> None"
    by (simp add: jobBackend_def jobOps_def posting_def)
  note ex = empty_resume_scores_zero [of "[jobBackend, jobOps]", THEN conjunct2, THEN mp, OF present]
  from ex obtain out where out: "analyzeResume '''' [jobBackend, jobOps] = Inr out"
    and frame: "map job.truncate out = [jobBackend, jobOps]"
    and each: "\<forall>m\<in>set out. matchScore m = 0 \<and> matchedSkills m = [] \<and>
                          requirements m = Some (missingSkills m)"
    by auto
  from frame obtain a b where ab: "out = [a, b]" "job.truncate a = jobBackend" "job.truncate b = jobOps"
    by (auto simp: map_eq_Cons_conv)
  have a: "a = job.extend jobBackend (matchResult.fields 0 [] [''Python'', ''React'', ''AWS''])"
    using ab each
    by (cases a) (auto simp: job.truncate_def job.extend_def matchResult.fields_def jobBackend_def posting_def)
  have b: "b = job.extend jobOps (matchResult.fields 0 [] [])"
    using ab each
    by (cases b) (auto simp: job.truncate_def job.extend_def matchResult.fields_def jobOps_def posting_def)
  show ?thesis using present out ab a b by simp
qed

text \<open>
  C9. For every job whose \<^verbatim>\<open>requirements\<close> field is present, the matched and the missing
  skills of its result have no skill in common, hold together exactly the required skills,
  each as often as it is required, and each list keeps the order of the required skills.
\<close>

theorem matched_and_missing_partition_requirements:
  "requirements job = Some reqs \<longrightarrow>
   (\<exists>m. matchJob resumeSkills job = Inr m \<and>
        getMatchedSkills resumeSkills (requirements job) = Inr (matchedSkills m) \<and>
        getMissingSkills resumeSkills (requirements job) = Inr (missingSkills m) \<and>
        set (matchedSkills m) \<inter> set (missingSkills m) = {} \<and>
        set (matchedSkills m) \<union> set (missingSkills m) = set reqs \<and>
        mset (matchedSkills m) + mset (missingSkills m) = mset reqs \<and>
        subseq (matchedSkills m) reqs \<and> subseq (missingSkills m) reqs)"
proof
  assume reqs: "requirements job = Some reqs"
  let ?m = "resultOf resumeSkills job"
  have run: "matchJob resumeSkills job = Inr ?m" using reqs by (rule matchJob_Some)
  have matched: "matchedSkills ?m = filter (someMatch resumeSkills) reqs"
    using reqs by (simp add: fields_resultOf orEmpty_def)
  have missing: "missingSkills ?m = filter (\<lambda>skill. \<not> someMatch resumeSkills skill) reqs"
    using reqs by (simp add: fields_resultOf orEmpty_def)
  have g1: "getMatchedSkills resumeSkills (requirements job) = Inr (matchedSkills ?m)"
    using reqs by (simp add: getMatchedSkills_def matched)
  have g2: "getMissingSkills resumeSkills (requirements job) = Inr (missingSkills ?m)"
    using reqs by (simp add: getMissingSkills_def missing)
  have d: "set (matchedSkills ?m) \<inter> set (missingSkills ?m) = {}"
    by (auto simp: matched missing)
  have u: "set (matchedSkills ?m) \<union> set (missingSkills ?m) = set reqs"
    by (auto simp: matched missing)
  have ms: "mset (matchedSkills ?m) + mset (missingSkills ?m) = mset reqs"
    by (simp add: matched missing)
  have s1: "subseq (matchedSkills ?m) reqs" by (simp add: matched)
  have s2: "subseq (missingSkills ?m) reqs" by (simp add: missing)
  show "\<exists>m. matchJob resumeSkills job = Inr m \<and>
        getMatchedSkills resumeSkills (requirements job) = Inr (matchedSkills m) \<and>
        getMissingSkills resumeSkills (requirements job) = Inr (missingSkills m) \<and>
        set (matchedSkills m) \<inter> set (missingSkills m) = {} \<and>
        set (matchedSkills m) \<union> set (missingSkills m) = set reqs \<and>
        mset (matchedSkills m) + mset (missingSkills m) = mset reqs \<and>
        subseq (matchedSkills m) reqs \<and> subseq (missingSkills m) reqs"
    using run g1 g2 d u ms s1 s2 by blast
qed

theorem matched_and_missing_partition_requirements_witness:
  "requirements jobA = Some [''Python'', ''Rust''] \<and>
   getMatchedSkills [''Python''] (requirements jobA) = Inr [''Python''] \<and>
   getMissingSkills [''Python''] (requirements jobA) = Inr [''Rust''] \<and>
   (\<exists>m. matchJob [''Python''] jobA = Inr m \<and> matchedSkills m = [''Python''] \<and> missingSkills m = [''Rust''] \<and>
        set (matchedSkills m) \<inter> set (missingSkills m) = {} \<and>
        set (matchedSkills m) \<union> set (missingSkills m) = set [''Python'', ''Rust''])"
proof -
  have reqs: "requirements jobA = Some [''Python'', ''Rust'']" by (simp add: jobA_def posting_def)
  have t: "someMatch [''Python''] ''Python'' = True" "someMatch [''Python''] ''Rust'' = False"
    by code_simp+
  have g1: "getMatchedSkills [''Python''] (requirements jobA) = Inr [''Python'']"
    by (simp add: reqs getMatchedSkills_def t)
  have g2: "getMissingSkills [''Python''] (requirements jobA) = Inr [''Rust'']"
    by (simp add: reqs getMissingSkills_def t)
  from matched_and_missing_partition_requirements [of jobA "[''Python'', ''Rust'']" "[''Python'']",
      THEN mp, OF reqs]
  obtain m where m: "matchJob [''Python''] jobA = Inr m"
      "getMatchedSkills [''Python''] (requirements jobA) = Inr (matchedSkills m)"
      "getMissingSkills [''Python''] (requirements jobA) = Inr (missingSkills m)"
      "set (matchedSkills m) \<inter> set (missingSkills m) = {}"
      "set (matchedSkills m) \<union> set (missingSkills m) = set [''Python'', ''Rust'']"
    by auto
  have "matchedSkills m = [''Python'']" "missingSkills m = [''Rust'']"
    using m(2,3) g1 g2 by simp_all
  then show ?thesis using reqs g1 g2 m(1,4,5) by blast
qed

text \<open>
  C10. The run returns as many results as there are jobs, and the results without their three
  added fields are the jobs of the job data, each once for each time it occurs there: every
  result is the job's own fields with the score, the matched and the missing skills of that
  job. The run returns whenever every job has its \<^verbatim>\<open>requirements\<close> field.
\<close>

theorem one_result_per_job:
  "((\<forall>j\<in>set jobData. requirements j \<noteq> None) \<longrightarrow>
      (\<exists>out. rankJobs resumeSkills jobData = Inr out)) \<and>
   (rankJobs resumeSkills jobData = Inr out \<longrightarrow>
      length out = length jobData \<and>
      mset (map job.truncate out) = mset jobData \<and>
      mset out = mset (map (resultOf resumeSkills) jobData))"
proof (intro conjI impI)
  assume "\<forall>j\<in>set jobData. requirements j \<noteq> None"
  then show "\<exists>out. rankJobs resumeSkills jobData = Inr out"
    by (simp add: rankJobs_present)
next
  assume run: "rankJobs resumeSkills jobData = Inr out"
  then have out: "out = sort_key (\<lambda>m. - matchScore m) (map (resultOf resumeSkills) jobData)"
    by (simp add: rankJobs_Inr)
  show "length out = length jobData" by (simp add: out)
  show perm: "mset out = mset (map (resultOf resumeSkills) jobData)" by (simp add: out)
  have "mset (map job.truncate out) = image_mset job.truncate (mset out)" by simp
  also have "\<dots> = image_mset job.truncate (mset (map (resultOf resumeSkills) jobData))"
    by (simp only: perm)
  also have "\<dots> = mset jobData" by (simp add: multiset.map_comp comp_def truncate_resultOf)
  finally show "mset (map job.truncate out) = mset jobData" .
qed

theorem one_result_per_job_witness:
  "requirements jobBackend \<noteq> None \<and> requirements jobData1 \<noteq> None \<and>
   rankJobs [''Docker''] [jobBackend, jobData1] =
     Inr [resultOf [''Docker''] jobData1, resultOf [''Docker''] jobBackend] \<and>
   length [resultOf [''Docker''] jobData1, resultOf [''Docker''] jobBackend] =
     length [jobBackend, jobData1] \<and>
   mset (map job.truncate [resultOf [''Docker''] jobData1, resultOf [''Docker''] jobBackend]) =
     mset [jobBackend, jobData1]"
proof -
  let ?rs = "[''Docker'']"
  have s1: "calculateMatchScore ?rs jobBackend = 0" by code_simp
  have s2: "calculateMatchScore ?rs jobData1 = 20" by code_simp
  have p1: "requirements jobBackend \<noteq> None" by (simp add: jobBackend_def posting_def)
  have p2: "requirements jobData1 \<noteq> None" by (simp add: jobData1_def posting_def)
  have present: "\<forall>j\<in>set [jobBackend, jobData1]. requirements j \<noteq> None"
    using p1 p2 by simp
  have run: "rankJobs ?rs [jobBackend, jobData1] =
      Inr [resultOf ?rs jobData1, resultOf ?rs jobBackend]"
    using present by (simp add: rankJobs_present matchScore_resultOf s1 s2)
  note ok = one_result_per_job
      [of "[jobBackend, jobData1]" ?rs "[resultOf ?rs jobData1, resultOf ?rs jobBackend]",
       THEN conjunct2, THEN mp, OF run]
  show ?thesis using p1 p2 run ok by simp
qed

end
